theory Spec2Isabelle
  imports Complex_Main "HOL-Library.Sublist" "HOL-Library.Word" "HOL-Library.Log_Nat"
begin

section \<open>Line sheet components: CSV ingestion, filter and pagination\<close>

text \<open>
  A shallow embedding of \<^verbatim>\<open>src/components/client-line-sheet.tsx\<close> and
  \<^verbatim>\<open>src/components/internal-line-sheet.tsx\<close>. Both components hold their state in
  React \<^verbatim>\<open>useState\<close> cells; the cells become the fields of a record and every handler a
  function from the state before the event to the state after it.

  Conventions of the model:
  \<^item> A JavaScript string is a list of UTF-16 code units, each a 16-bit word.
  \<^item> A JavaScript Number is a \<^emph>\<open>jsnum\<close>: a binary64 value, that is not-a-number, an
    infinity, negative zero, or a finite real (zero for positive zero). Every arithmetic
    operation rounds its exact result to the nearest binary64 value, ties to even.
  \<^item> The CSV parser is the papaparse library, which is not part of the repository. Its
    result (the \<^verbatim>\<open>data\<close> and \<^verbatim>\<open>errors\<close> arrays handed to \<^verbatim>\<open>complete\<close>) is an
    input of the model.
  \<^item> \<^verbatim>\<open>String.prototype.toLowerCase\<close> follows the Unicode case tables of the engine. The
    model computes it on strings of ASCII characters and of the letters of the basic Greek
    alphabet; on any other string it is the parameter \<open>U\<close> of the definitions below.
\<close>

subsection \<open>Strings\<close>

type_synonym code_unit = "16 word"

type_synonym jsstring = "code_unit list"

text \<open>A string literal of the source, as code units.\<close>

definition js :: "string \<Rightarrow> jsstring" where
  "js s = map of_char s"

definition isAsciiUpper :: "code_unit \<Rightarrow> bool" where
  "isAsciiUpper c = (0x41 \<le> c \<and> c \<le> 0x5A)"

definition isAsciiLower :: "code_unit \<Rightarrow> bool" where
  "isAsciiLower c = (0x61 \<le> c \<and> c \<le> 0x7A)"

text \<open>The capital letters Alpha to Omega (U+03A2 is not assigned) and the small ones.\<close>

definition isGreekUpper :: "code_unit \<Rightarrow> bool" where
  "isGreekUpper c = (0x391 \<le> c \<and> c \<le> 0x3A9 \<and> c \<noteq> 0x3A2)"

definition isGreekLower :: "code_unit \<Rightarrow> bool" where
  "isGreekLower c = (0x3B1 \<le> c \<and> c \<le> 0x3C9)"

text \<open>The code units on which the model computes \<^verbatim>\<open>toLowerCase\<close>.\<close>

definition inFragment :: "code_unit \<Rightarrow> bool" where
  "inFragment c = (c < 0x80 \<or> isGreekUpper c \<or> isGreekLower c)"

text \<open>
  The Unicode properties Cased and Case_Ignorable on those code units: the letters, and
  apostrophe, full stop, colon, circumflex accent and grave accent.
\<close>

definition cased :: "code_unit \<Rightarrow> bool" where
  "cased c = (isAsciiUpper c \<or> isAsciiLower c \<or> isGreekUpper c \<or> isGreekLower c)"

definition caseIgnorable :: "code_unit \<Rightarrow> bool" where
  "caseIgnorable c = (c \<in> {0x27, 0x2E, 0x3A, 0x5E, 0x60})"

definition followedByCased :: "jsstring \<Rightarrow> bool" where
  "followedByCased cs = (case dropWhile caseIgnorable cs of [] \<Rightarrow> False | d # _ \<Rightarrow> cased d)"

text \<open>
  Lower-casing from left to right. The flag says that the text before the current code
  unit ends with a cased letter followed by case-ignorable characters only. A capital
  sigma (U+03A3) becomes the final sigma (U+03C2) when the flag holds and no cased letter
  follows after case-ignorable characters (the condition Final_Sigma of the Unicode
  standard), and the small sigma (U+03C3) otherwise; every other capital letter becomes its
  small letter, 32 code units further.
\<close>

fun lowerFrom :: "bool \<Rightarrow> jsstring \<Rightarrow> jsstring" where
  "lowerFrom after [] = []"
| "lowerFrom after (c # cs) =
     (if c = 0x3A3
      then (if after \<and> \<not> followedByCased cs then 0x3C2 else 0x3C3) # lowerFrom True cs
      else if isAsciiUpper c \<or> isGreekUpper c then (c + 0x20) # lowerFrom True cs
      else c # lowerFrom (if cased c then True else if caseIgnorable c then after else False) cs)"

text \<open>\<^verbatim>\<open>String.prototype.toLowerCase\<close>.\<close>

definition toLowerCase :: "(jsstring \<Rightarrow> jsstring) \<Rightarrow> jsstring \<Rightarrow> jsstring" where
  "toLowerCase U s = (if list_all inFragment s then lowerFrom False s else U s)"

text \<open>
  The class \<^verbatim>\<open>\s\<close> of a regular expression, which is also the white space that
  \<^verbatim>\<open>parseInt\<close> and \<^verbatim>\<open>parseFloat\<close> skip: the white space and line terminator code
  points of ECMAScript.
\<close>

definition isWhiteSpace :: "code_unit \<Rightarrow> bool" where
  "isWhiteSpace c =
     (c \<in> {0x09, 0x0A, 0x0B, 0x0C, 0x0D, 0x20, 0xA0, 0x1680, 0x2028, 0x2029, 0x202F, 0x205F,
            0x3000, 0xFEFF}
      \<or> (0x2000 \<le> c \<and> c \<le> 0x200A))"

text \<open>
  \<^verbatim>\<open>transformHeader: (header: string) => header.toLowerCase().replace(/\s+/g, '')\<close>:
  every maximal run of white space is replaced by the empty string.
\<close>

definition transformHeader :: "(jsstring \<Rightarrow> jsstring) \<Rightarrow> jsstring \<Rightarrow> jsstring" where
  "transformHeader U header = filter (\<lambda>c. \<not> isWhiteSpace c) (toLowerCase U header)"

text \<open>\<^verbatim>\<open>s.includes(t)\<close>: \<^verbatim>\<open>t\<close> occurs in \<^verbatim>\<open>s\<close> at some position.\<close>

fun includes_str :: "jsstring \<Rightarrow> jsstring \<Rightarrow> bool" where
  "includes_str [] t = (t = [])"
| "includes_str (c # s) t = (prefix t (c # s) \<or> includes_str s t)"

definition startsWithChar :: "code_unit \<Rightarrow> jsstring \<Rightarrow> bool" where
  "startsWithChar ch s = (case s of [] \<Rightarrow> False | c # _ \<Rightarrow> c = ch)"

subsection \<open>Numbers\<close>

text \<open>
  The values of the Number type. \<open>Fin 0\<close> is positive zero; a finite value of the
  program is \<open>Fin x\<close> with \<open>x\<close> a real that binary64 represents.
\<close>

datatype jsnum = NaN | Fin real | NegZero | PosInfinity | NegInfinity

definition pow2 :: "int \<Rightarrow> real" where
  "pow2 e = (if 0 \<le> e then 2 ^ nat e else 1 / 2 ^ nat (- e))"

text \<open>The exponent of a positive real: the \<open>k\<close> with \<open>2 ^ k \<le> x < 2 ^ (k + 1)\<close>.\<close>

definition ilog2 :: "real \<Rightarrow> int" where
  "ilog2 x = (if 1 \<le> x then bitlen \<lfloor>x\<rfloor> - 1 else - bitlen (\<lceil>1 / x\<rceil> - 1))"

definition round_half_even :: "real \<Rightarrow> int" where
  "round_half_even q =
     (if q - real_of_int \<lfloor>q\<rfloor> < 1 / 2 then \<lfloor>q\<rfloor>
      else if 1 / 2 < q - real_of_int \<lfloor>q\<rfloor> then \<lfloor>q\<rfloor> + 1
      else if even \<lfloor>q\<rfloor> then \<lfloor>q\<rfloor> else \<lfloor>q\<rfloor> + 1)"

text \<open>
  The Number nearest to a real, ties to even. A positive real \<open>a\<close> is scaled to a
  significand of at most 53 bits, at an exponent not below that of the subnormal numbers,
  and the significand is rounded to an integer. A result of \<open>2 ^ 1024\<close> or more is an
  infinity, and a nonzero real that rounds to zero keeps its sign.
\<close>

definition exponent_of :: "real \<Rightarrow> int" where
  "exponent_of a = max (ilog2 a - 52) (- 1074)"

definition significand_of :: "real \<Rightarrow> int" where
  "significand_of a = round_half_even (a / pow2 (exponent_of a))"

definition zero :: "bool \<Rightarrow> jsnum" where
  "zero negative = (if negative then NegZero else Fin 0)"

definition inf :: "bool \<Rightarrow> jsnum" where
  "inf negative = (if negative then NegInfinity else PosInfinity)"

definition fl :: "real \<Rightarrow> jsnum" where
  "fl x =
     (if x = 0 then Fin 0
      else if 2 ^ 1024 \<le> real_of_int (significand_of \<bar>x\<bar>) * pow2 (exponent_of \<bar>x\<bar>)
      then inf (x < 0)
      else if significand_of \<bar>x\<bar> = 0 then zero (x < 0)
      else Fin ((if x < 0 then - 1 else 1) *
                (real_of_int (significand_of \<bar>x\<bar>) * pow2 (exponent_of \<bar>x\<bar>))))"

definition isNeg :: "jsnum \<Rightarrow> bool" where
  "isNeg a = (case a of Fin x \<Rightarrow> x < 0 | NegZero \<Rightarrow> True | NegInfinity \<Rightarrow> True | _ \<Rightarrow> False)"

definition isZero :: "jsnum \<Rightarrow> bool" where
  "isZero a = (a = Fin 0 \<or> a = NegZero)"

definition isInf :: "jsnum \<Rightarrow> bool" where
  "isInf a = (a = PosInfinity \<or> a = NegInfinity)"

definition valueOf :: "jsnum \<Rightarrow> real" where
  "valueOf a = (case a of Fin x \<Rightarrow> x | _ \<Rightarrow> 0)"

text \<open>
  The operators \<^verbatim>\<open>-\<close>, \<^verbatim>\<open>/\<close> and \<^verbatim>\<open>*\<close> on Numbers (IEEE 754): the special values
  first, then the exact result rounded by \<open>fl\<close>. An exact zero takes its sign from the
  operands.
\<close>

definition jsub :: "jsnum \<Rightarrow> jsnum \<Rightarrow> jsnum" where
  "jsub a b =
     (if a = NaN \<or> b = NaN then NaN
      else if isInf a then (if b = a then NaN else a)
      else if isInf b then inf (\<not> isNeg b)
      else if valueOf a - valueOf b = 0
           then (if a = NegZero \<and> b \<noteq> NegZero then NegZero else Fin 0)
      else fl (valueOf a - valueOf b))"

definition jdiv :: "jsnum \<Rightarrow> jsnum \<Rightarrow> jsnum" where
  "jdiv a b =
     (if a = NaN \<or> b = NaN then NaN
      else if isInf a then (if isInf b then NaN else inf (isNeg a \<noteq> isNeg b))
      else if isInf b then zero (isNeg a \<noteq> isNeg b)
      else if isZero b then (if isZero a then NaN else inf (isNeg a \<noteq> isNeg b))
      else if isZero a then zero (isNeg a \<noteq> isNeg b)
      else fl (valueOf a / valueOf b))"

definition jmul :: "jsnum \<Rightarrow> jsnum \<Rightarrow> jsnum" where
  "jmul a b =
     (if a = NaN \<or> b = NaN then NaN
      else if isInf a \<or> isInf b
           then (if isZero a \<or> isZero b then NaN else inf (isNeg a \<noteq> isNeg b))
      else if valueOf a * valueOf b = 0 then zero (isNeg a \<noteq> isNeg b)
      else fl (valueOf a * valueOf b))"

definition isDecimalDigit :: "code_unit \<Rightarrow> bool" where
  "isDecimalDigit c = (0x30 \<le> c \<and> c \<le> 0x39)"

definition isRadixDigit :: "nat \<Rightarrow> code_unit \<Rightarrow> bool" where
  "isRadixDigit R c =
     (if R = 16 then (0x30 \<le> c \<and> c \<le> 0x39) \<or> (0x61 \<le> c \<and> c \<le> 0x66) \<or> (0x41 \<le> c \<and> c \<le> 0x46)
      else 0x30 \<le> c \<and> c \<le> 0x39)"

definition digitValue :: "code_unit \<Rightarrow> nat" where
  "digitValue c =
     (if 0x61 \<le> c then unat c - 0x57 else if 0x41 \<le> c then unat c - 0x37 else unat c - 0x30)"

definition digitsValue :: "nat \<Rightarrow> jsstring \<Rightarrow> nat" where
  "digitsValue R Z = foldl (\<lambda>acc c. acc * R + digitValue c) 0 Z"

text \<open>
  \<^verbatim>\<open>ToString\<close> of a cell: a property that the row does not have reads as
  \<^verbatim>\<open>undefined\<close>, whose string is \<^verbatim>\<open>"undefined"\<close>.
\<close>

definition ToString :: "jsstring option \<Rightarrow> jsstring" where
  "ToString v = (case v of None \<Rightarrow> js ''undefined'' | Some s \<Rightarrow> s)"

text \<open>
  \<^verbatim>\<open>parseInt(v)\<close> with no radix: leading white space is skipped, a sign is read, a
  \<^verbatim>\<open>0x\<close> prefix selects radix 16, and the longest run of digits is the value, rounded to
  a Number. No digit gives \<^verbatim>\<open>NaN\<close>; the value zero takes the sign that was read.
\<close>

definition parseInt :: "jsstring option \<Rightarrow> jsnum" where
  "parseInt v =
     (let S = dropWhile isWhiteSpace (ToString v);
          negative = startsWithChar 0x2D S;
          S1 = (if startsWithChar 0x2B S \<or> startsWithChar 0x2D S then tl S else S);
          hex = (take 2 S1 = js ''0x'' \<or> take 2 S1 = js ''0X'');
          R = (if hex then 16 else 10);
          S2 = (if hex then drop 2 S1 else S1);
          Z = takeWhile (isRadixDigit R) S2;
          mathInt = digitsValue R Z
      in if Z = [] then NaN
         else if mathInt = 0 then zero negative
         else fl ((if negative then - 1 else 1) * real mathInt))"

text \<open>The exponent part of a decimal literal: \<^verbatim>\<open>e\<close> or \<^verbatim>\<open>E\<close>, a sign, digits.\<close>

definition parseExponent :: "jsstring \<Rightarrow> int" where
  "parseExponent rest =
     (if startsWithChar 0x65 rest \<or> startsWithChar 0x45 rest
      then (let r = tl rest;
                esign = (if startsWithChar 0x2D r then - 1 else 1 :: int);
                d = (if startsWithChar 0x2B r \<or> startsWithChar 0x2D r then tl r else r);
                ds = takeWhile isDecimalDigit d
            in if ds = [] then 0 else esign * int (digitsValue 10 ds))
      else 0)"

definition scale10 :: "real \<Rightarrow> int \<Rightarrow> real" where
  "scale10 m e = (if 0 \<le> e then m * 10 ^ nat e else m / 10 ^ nat (- e))"

text \<open>
  \<^verbatim>\<open>parseFloat(v)\<close>: leading white space is skipped and the longest prefix that is a
  decimal literal (sign, \<^verbatim>\<open>Infinity\<close> or digits with an optional fraction and exponent)
  is the value, rounded to a Number. No such prefix gives \<^verbatim>\<open>NaN\<close>.
\<close>

definition parseFloat :: "jsstring option \<Rightarrow> jsnum" where
  "parseFloat v =
     (let S = dropWhile isWhiteSpace (ToString v);
          negative = startsWithChar 0x2D S;
          U = (if startsWithChar 0x2B S \<or> startsWithChar 0x2D S then tl S else S)
      in if prefix (js ''Infinity'') U then inf negative
         else
           (let intDigits = takeWhile isDecimalDigit U;
                afterInt = dropWhile isDecimalDigit U;
                hasDot = startsWithChar 0x2E afterInt;
                fracDigits = (if hasDot then takeWhile isDecimalDigit (tl afterInt) else []);
                afterMantissa = (if hasDot then dropWhile isDecimalDigit (tl afterInt) else afterInt);
                e = parseExponent afterMantissa;
                n = digitsValue 10 (intDigits @ fracDigits);
                x = scale10 (real n / 10 ^ length fracDigits) e
            in if intDigits = [] \<and> fracDigits = [] then NaN
               else if n = 0 then zero negative
               else fl ((if negative then - 1 else 1) * x)))"

text \<open>
  \<^verbatim>\<open>x || 0\<close> on a Number: \<^verbatim>\<open>NaN\<close> and the two zeros are falsy and give the right
  operand.
\<close>

definition num_or_zero :: "jsnum \<Rightarrow> jsnum" where
  "num_or_zero x = (if x = NaN \<or> isZero x then Fin 0 else x)"

text \<open>
  \<^verbatim>\<open>v || ''\<close> on a cell: \<^verbatim>\<open>undefined\<close> and the empty string are falsy.
\<close>

definition str_or_empty :: "jsstring option \<Rightarrow> jsstring" where
  "str_or_empty v = (case v of None \<Rightarrow> [] | Some s \<Rightarrow> if s = [] then [] else s)"

subsection \<open>Rows and items\<close>

text \<open>
  A row of \<^verbatim>\<open>result.data\<close>: with \<^verbatim>\<open>header: true\<close> papaparse gives one object per data
  line, whose property names are the header tokens after \<^verbatim>\<open>transformHeader\<close>.
\<close>

type_synonym RawRow = "jsstring \<rightharpoonup> jsstring"

datatype ParseError = ParseError jsstring jsstring jsstring

record ParseResult =
  data :: "RawRow list"
  errors :: "ParseError list"

text \<open>
  The two item types of the source have ten fields in common. They are one record of the
  common fields and its two extensions, so that the filter, which both components apply to
  \<^verbatim>\<open>name\<close>, \<^verbatim>\<open>status\<close> and \<^verbatim>\<open>category\<close>, is written once.
\<close>

record LineSheetItem =
  id' :: nat
  name :: jsstring
  minOrderQuantity :: jsnum
  sampleLeadTime :: jsstring
  bulkLeadTime :: jsstring
  status :: jsstring
  sizes :: jsstring
  fabricMaterial :: jsstring
  category :: jsstring
  imageUrl :: jsstring

record ClientLineSheetItem = LineSheetItem +
  balance :: jsnum

record InternalLineSheetItem = LineSheetItem +
  sampleCost :: jsnum
  productionCost :: jsnum
  factoryCost :: jsnum
  shipping :: jsstring
  note' :: jsstring
  alibabaUrl :: jsstring

text \<open>The body of \<^verbatim>\<open>result.data.map((row, index) => ...)\<close> of the client component.\<close>

definition client_coerce :: "RawRow \<Rightarrow> nat \<Rightarrow> ClientLineSheetItem" where
  "client_coerce row index =
     \<lparr> id' = index + 1,
       name = str_or_empty (row (js ''name'')),
       minOrderQuantity = num_or_zero (parseInt (row (js ''minOrderQuantity''))),
       sampleLeadTime = str_or_empty (row (js ''sampleLeadTime'')),
       bulkLeadTime = str_or_empty (row (js ''bulkLeadTime'')),
       status = str_or_empty (row (js ''status'')),
       sizes = str_or_empty (row (js ''sizes'')),
       fabricMaterial = str_or_empty (row (js ''fabricMaterial'')),
       category = str_or_empty (row (js ''category'')),
       imageUrl = str_or_empty (row (js ''imageUrl'')),
       balance = num_or_zero (parseFloat (row (js ''balance''))) \<rparr>"

text \<open>The same of the internal component.\<close>

definition internal_coerce :: "RawRow \<Rightarrow> nat \<Rightarrow> InternalLineSheetItem" where
  "internal_coerce row index =
     \<lparr> id' = index + 1,
       name = str_or_empty (row (js ''name'')),
       minOrderQuantity = num_or_zero (parseInt (row (js ''minOrderQuantity''))),
       sampleLeadTime = str_or_empty (row (js ''sampleLeadTime'')),
       bulkLeadTime = str_or_empty (row (js ''bulkLeadTime'')),
       status = str_or_empty (row (js ''status'')),
       sizes = str_or_empty (row (js ''sizes'')),
       fabricMaterial = str_or_empty (row (js ''fabricMaterial'')),
       category = str_or_empty (row (js ''category'')),
       imageUrl = str_or_empty (row (js ''imageUrl'')),
       sampleCost = num_or_zero (parseFloat (row (js ''sampleCost''))),
       productionCost = num_or_zero (parseFloat (row (js ''productionCost''))),
       factoryCost = num_or_zero (parseFloat (row (js ''factoryCost''))),
       shipping = str_or_empty (row (js ''shipping'')),
       note' = str_or_empty (row (js ''note'')),
       alibabaUrl = str_or_empty (row (js ''alibabaUrl'')) \<rparr>"

text \<open>
  \<^verbatim>\<open>calculateMargin\<close> of the internal component. \<^verbatim>\<open>factoryCost === 0\<close> holds of both
  zeros.
\<close>

definition calculateMargin :: "jsnum \<Rightarrow> jsnum \<Rightarrow> jsnum" where
  "calculateMargin productionCost' factoryCost' =
     (if isZero factoryCost' then Fin 0
      else jmul (jdiv (jsub productionCost' factoryCost') factoryCost') (Fin 100))"

subsection \<open>View state\<close>

datatype ViewMode = Grid | Table

record 'item ViewState =
  items :: "'item list"
  currentPage :: int
  searchTerm :: jsstring
  statusFilter :: jsstring
  categoryFilter :: jsstring
  error :: "jsstring option"

record 'item ClientViewState = "'item ViewState" +
  viewMode :: ViewMode

type_synonym client_state = "ClientLineSheetItem ClientViewState"
type_synonym internal_state = "InternalLineSheetItem ViewState"

text \<open>The initial values of the \<^verbatim>\<open>useState\<close> cells.\<close>

definition client_init :: client_state where
  "client_init =
     \<lparr> items = [], currentPage = 1, searchTerm = [], statusFilter = js ''All'',
       categoryFilter = js ''All'', error = None, viewMode = Grid \<rparr>"

definition internal_init :: internal_state where
  "internal_init =
     \<lparr> items = [], currentPage = 1, searchTerm = [], statusFilter = js ''All'',
       categoryFilter = js ''All'', error = None \<rparr>"

definition client_itemsPerPage :: nat where
  "client_itemsPerPage = 9"

definition internal_itemsPerPage :: nat where
  "internal_itemsPerPage = 10"

subsection \<open>Filter and pagination\<close>

text \<open>\<^verbatim>\<open>filteredItems\<close>, the same expression in both components.\<close>

definition filteredItems ::
  "(jsstring \<Rightarrow> jsstring) \<Rightarrow> ('a LineSheetItem_scheme) list \<Rightarrow> jsstring \<Rightarrow> jsstring \<Rightarrow> jsstring
     \<Rightarrow> ('a LineSheetItem_scheme) list"
where
  "filteredItems U its searchTerm' statusFilter' categoryFilter' =
     filter (\<lambda>item.
        includes_str (toLowerCase U (name item)) (toLowerCase U searchTerm') \<and>
        (statusFilter' = js ''All'' \<or> status item = statusFilter') \<and>
        (categoryFilter' = js ''All'' \<or> category item = categoryFilter')) its"

definition view_filtered ::
  "(jsstring \<Rightarrow> jsstring) \<Rightarrow> (('a LineSheetItem_scheme), 'b) ViewState_scheme
     \<Rightarrow> ('a LineSheetItem_scheme) list"
where
  "view_filtered U s =
     filteredItems U (items s) (searchTerm s) (statusFilter s) (categoryFilter s)"

text \<open>
  \<^verbatim>\<open>Array.prototype.slice(start, end)\<close>: a negative bound counts from the end of the
  array, and both bounds are cut to the array.
\<close>

definition js_slice :: "'a list \<Rightarrow> int \<Rightarrow> int \<Rightarrow> 'a list" where
  "js_slice xs start end' =
     (let len = int (length xs);
          k = (if start < 0 then max (len + start) 0 else min start len);
          final = (if end' < 0 then max (len + end') 0 else min end' len)
      in take (nat (final - k)) (drop (nat k) xs))"

text \<open>\<^verbatim>\<open>Math.ceil(filteredItems.length / itemsPerPage)\<close>.\<close>

definition totalPages :: "nat \<Rightarrow> 'a list \<Rightarrow> int" where
  "totalPages itemsPerPage filtered = \<lceil>real (length filtered) / real itemsPerPage\<rceil>"

definition startIndex :: "nat \<Rightarrow> int \<Rightarrow> int" where
  "startIndex itemsPerPage currentPage' = (currentPage' - 1) * int itemsPerPage"

definition displayedItems :: "nat \<Rightarrow> 'a list \<Rightarrow> int \<Rightarrow> 'a list" where
  "displayedItems itemsPerPage filtered currentPage' =
     js_slice filtered (startIndex itemsPerPage currentPage')
       (startIndex itemsPerPage currentPage' + int itemsPerPage)"

text \<open>
  The two numbers of the text \<^verbatim>\<open>Showing X-Y of Z items\<close>:
  \<^verbatim>\<open>startIndex + 1\<close> and \<^verbatim>\<open>Math.min(startIndex + itemsPerPage, filteredItems.length)\<close>.
\<close>

definition displayRange :: "nat \<Rightarrow> 'a list \<Rightarrow> int \<Rightarrow> int \<times> int" where
  "displayRange itemsPerPage filtered currentPage' =
     (startIndex itemsPerPage currentPage' + 1,
      min (startIndex itemsPerPage currentPage' + int itemsPerPage) (int (length filtered)))"

subsection \<open>Handlers\<close>

text \<open>The \<^verbatim>\<open>complete\<close> callback given to \<^verbatim>\<open>Papa.parse\<close> by the client component.\<close>

definition client_complete :: "ParseResult \<Rightarrow> client_state \<Rightarrow> client_state" where
  "client_complete result s =
     (if length (errors result) > 0
      then s\<lparr>error := Some (js ''Error parsing CSV file. Please check the file format.'')\<rparr>
      else (let parsedData = map (\<lambda>(index, row). client_coerce row index) (enumerate 0 (data result))
            in s\<lparr>items := parsedData, error := None\<rparr>))"

definition internal_complete :: "ParseResult \<Rightarrow> internal_state \<Rightarrow> internal_state" where
  "internal_complete result s =
     (if length (errors result) > 0
      then s\<lparr>error := Some (js ''Error parsing CSV file. Please check the file format.'')\<rparr>
      else (let parsedData = map (\<lambda>(index, row). internal_coerce row index) (enumerate 0 (data result))
            in s\<lparr>items := parsedData, error := None\<rparr>))"

text \<open>
  \<^verbatim>\<open>onDrop\<close>: the first accepted file, when there is one, is parsed and \<^verbatim>\<open>complete\<close>
  runs on the result. \<open>papa\<close> is the parser under the options of the call.
\<close>

definition client_onDrop :: "('f \<Rightarrow> ParseResult) \<Rightarrow> 'f list \<Rightarrow> client_state \<Rightarrow> client_state" where
  "client_onDrop papa acceptedFiles s =
     (case acceptedFiles of [] \<Rightarrow> s | file # _ \<Rightarrow> client_complete (papa file) s)"

definition internal_onDrop :: "('f \<Rightarrow> ParseResult) \<Rightarrow> 'f list \<Rightarrow> internal_state \<Rightarrow> internal_state" where
  "internal_onDrop papa acceptedFiles s =
     (case acceptedFiles of [] \<Rightarrow> s | file # _ \<Rightarrow> internal_complete (papa file) s)"

text \<open>
  The input handlers: \<^verbatim>\<open>onChange={(e) => setSearchTerm(e.target.value)}\<close>,
  \<^verbatim>\<open>onValueChange={setCategoryFilter}\<close>, \<^verbatim>\<open>onValueChange={setStatusFilter}\<close> and, in the
  client component, \<^verbatim>\<open>setViewMode(value)\<close>.
\<close>

definition setSearchTerm :: "jsstring \<Rightarrow> ('i, 'b) ViewState_scheme \<Rightarrow> ('i, 'b) ViewState_scheme" where
  "setSearchTerm v s = s\<lparr>searchTerm := v\<rparr>"

definition setCategoryFilter :: "jsstring \<Rightarrow> ('i, 'b) ViewState_scheme \<Rightarrow> ('i, 'b) ViewState_scheme" where
  "setCategoryFilter v s = s\<lparr>categoryFilter := v\<rparr>"

definition setStatusFilter :: "jsstring \<Rightarrow> ('i, 'b) ViewState_scheme \<Rightarrow> ('i, 'b) ViewState_scheme" where
  "setStatusFilter v s = s\<lparr>statusFilter := v\<rparr>"

definition setViewMode :: "ViewMode \<Rightarrow> client_state \<Rightarrow> client_state" where
  "setViewMode v s = s\<lparr>viewMode := v\<rparr>"

text \<open>
  The page buttons: \<^verbatim>\<open>setCurrentPage(prev => Math.max(prev - 1, 1))\<close> and
  \<^verbatim>\<open>setCurrentPage(prev => Math.min(prev + 1, totalPages))\<close>.
\<close>

definition previousPage ::
  "(('a LineSheetItem_scheme), 'b) ViewState_scheme \<Rightarrow> (('a LineSheetItem_scheme), 'b) ViewState_scheme"
where
  "previousPage s = s\<lparr>currentPage := max (currentPage s - 1) 1\<rparr>"

definition nextPage ::
  "(jsstring \<Rightarrow> jsstring) \<Rightarrow> nat \<Rightarrow> (('a LineSheetItem_scheme), 'b) ViewState_scheme
     \<Rightarrow> (('a LineSheetItem_scheme), 'b) ViewState_scheme"
where
  "nextPage U itemsPerPage s =
     s\<lparr>currentPage := min (currentPage s + 1) (totalPages itemsPerPage (view_filtered U s))\<rparr>"

text \<open>
  The page buttons are rendered only under \<^verbatim>\<open>totalPages > 1\<close>; the previous button is
  disabled on page 1 and the next button on the last page.
\<close>

definition previousEnabled ::
  "(jsstring \<Rightarrow> jsstring) \<Rightarrow> nat \<Rightarrow> (('a LineSheetItem_scheme), 'b) ViewState_scheme \<Rightarrow> bool"
where
  "previousEnabled U itemsPerPage s =
     (totalPages itemsPerPage (view_filtered U s) > 1 \<and> currentPage s \<noteq> 1)"

definition nextEnabled ::
  "(jsstring \<Rightarrow> jsstring) \<Rightarrow> nat \<Rightarrow> (('a LineSheetItem_scheme), 'b) ViewState_scheme \<Rightarrow> bool"
where
  "nextEnabled U itemsPerPage s =
     (totalPages itemsPerPage (view_filtered U s) > 1 \<and>
      currentPage s \<noteq> totalPages itemsPerPage (view_filtered U s))"

subsection \<open>The components as transition systems\<close>

datatype 'f event =
    Drop "'f list"
  | SearchInput jsstring
  | CategorySelect jsstring
  | StatusSelect jsstring
  | PreviousClick
  | NextClick

datatype 'f client_event = Shared "'f event" | ViewModeSelect ViewMode

text \<open>A click on a button that is not rendered or is disabled changes nothing.\<close>

fun internal_step ::
  "(jsstring \<Rightarrow> jsstring) \<Rightarrow> ('f \<Rightarrow> ParseResult) \<Rightarrow> 'f event \<Rightarrow> internal_state \<Rightarrow> internal_state"
where
  "internal_step U papa (Drop acceptedFiles) s = internal_onDrop papa acceptedFiles s"
| "internal_step U papa (SearchInput v) s = setSearchTerm v s"
| "internal_step U papa (CategorySelect v) s = setCategoryFilter v s"
| "internal_step U papa (StatusSelect v) s = setStatusFilter v s"
| "internal_step U papa PreviousClick s =
     (if previousEnabled U internal_itemsPerPage s then previousPage s else s)"
| "internal_step U papa NextClick s =
     (if nextEnabled U internal_itemsPerPage s then nextPage U internal_itemsPerPage s else s)"

fun client_step ::
  "(jsstring \<Rightarrow> jsstring) \<Rightarrow> ('f \<Rightarrow> ParseResult) \<Rightarrow> 'f client_event \<Rightarrow> client_state \<Rightarrow> client_state"
where
  "client_step U papa (Shared (Drop acceptedFiles)) s = client_onDrop papa acceptedFiles s"
| "client_step U papa (Shared (SearchInput v)) s = setSearchTerm v s"
| "client_step U papa (Shared (CategorySelect v)) s = setCategoryFilter v s"
| "client_step U papa (Shared (StatusSelect v)) s = setStatusFilter v s"
| "client_step U papa (Shared PreviousClick) s =
     (if previousEnabled U client_itemsPerPage s then previousPage s else s)"
| "client_step U papa (Shared NextClick) s =
     (if nextEnabled U client_itemsPerPage s then nextPage U client_itemsPerPage s else s)"
| "client_step U papa (ViewModeSelect v) s = setViewMode v s"

definition client_run ::
  "(jsstring \<Rightarrow> jsstring) \<Rightarrow> ('f \<Rightarrow> ParseResult) \<Rightarrow> 'f client_event list \<Rightarrow> client_state \<Rightarrow> client_state"
where
  "client_run U papa es s = foldl (\<lambda>s' e. client_step U papa e s') s es"

definition internal_run ::
  "(jsstring \<Rightarrow> jsstring) \<Rightarrow> ('f \<Rightarrow> ParseResult) \<Rightarrow> 'f event list \<Rightarrow> internal_state \<Rightarrow> internal_state"
where
  "internal_run U papa es s = foldl (\<lambda>s' e. internal_step U papa e s') s es"

inductive client_reachable ::
  "(jsstring \<Rightarrow> jsstring) \<Rightarrow> ('f \<Rightarrow> ParseResult) \<Rightarrow> client_state \<Rightarrow> bool"
  for U :: "jsstring \<Rightarrow> jsstring" and papa :: "'f \<Rightarrow> ParseResult"
where
  client_reachable_init: "client_reachable U papa client_init"
| client_reachable_step:
    "client_reachable U papa s \<Longrightarrow> client_reachable U papa (client_step U papa e s)"

inductive internal_reachable ::
  "(jsstring \<Rightarrow> jsstring) \<Rightarrow> ('f \<Rightarrow> ParseResult) \<Rightarrow> internal_state \<Rightarrow> bool"
  for U :: "jsstring \<Rightarrow> jsstring" and papa :: "'f \<Rightarrow> ParseResult"
where
  internal_reachable_init: "internal_reachable U papa internal_init"
| internal_reachable_step:
    "internal_reachable U papa s \<Longrightarrow> internal_reachable U papa (internal_step U papa e s)"

subsection \<open>Notions of the specification\<close>





text \<open>The interval \<open>[1, max(1, totalPages)]\<close> of the specification's page invariant.\<close>

definition page_in_range ::
  "(jsstring \<Rightarrow> jsstring) \<Rightarrow> nat \<Rightarrow> (('a LineSheetItem_scheme), 'b) ViewState_scheme \<Rightarrow> bool"
where
  "page_in_range U itemsPerPage s =
     (1 \<le> currentPage s \<and> currentPage s \<le> max 1 (totalPages itemsPerPage (view_filtered U s)))"

section \<open>Properties\<close>

subsection \<open>Auxiliary facts\<close>

lemma complete_with_errors:
  "errors result \<noteq> [] \<Longrightarrow>
     client_complete result cs =
       cs\<lparr>error := Some (js ''Error parsing CSV file. Please check the file format.'')\<rparr>"
  "errors result \<noteq> [] \<Longrightarrow>
     internal_complete result s =
       s\<lparr>error := Some (js ''Error parsing CSV file. Please check the file format.'')\<rparr>"
  by (simp_all add: client_complete_def internal_complete_def)


subsection \<open>Ingestion\<close>

text \<open>
  Claim C2, as amended. When the parse of the dropped file reports one or more errors, the
  ingestion sets the error message and installs no new record set: the items held before
  the upload are still the items afterwards, in both components. (The claim as written
  says that the previous batch is cleared.)
\<close>

theorem C2_failed_upload_keeps_batch:
  assumes "errors (papa file) \<noteq> []"
  shows "error (client_onDrop papa (file # fs) cs) =
           Some (js ''Error parsing CSV file. Please check the file format.'')
       \<and> items (client_onDrop papa (file # fs) cs) = items cs
       \<and> error (internal_onDrop papa (file # fs) s) =
           Some (js ''Error parsing CSV file. Please check the file format.'')
       \<and> items (internal_onDrop papa (file # fs) s) = items s"
  using assms by (simp add: client_onDrop_def internal_onDrop_def complete_with_errors)

theorem C2_failed_upload_keeps_batch_witness:
  "errors ((\<lambda>f. \<lparr>data = [],
                 errors = [ParseError (js ''Quotes'') (js ''MissingQuotes'')
                             (js ''Quoted field unterminated'')]\<rparr>) ''bad.csv'') \<noteq> []
   \<and> error (client_onDrop
        (\<lambda>f. \<lparr>data = [],
               errors = [ParseError (js ''Quotes'') (js ''MissingQuotes'')
                           (js ''Quoted field unterminated'')]\<rparr>)
        [''bad.csv''] client_init)
       = Some (js ''Error parsing CSV file. Please check the file format.'')
   \<and> items (internal_onDrop
        (\<lambda>f. \<lparr>data = [],
               errors = [ParseError (js ''Quotes'') (js ''MissingQuotes'')
                           (js ''Quoted field unterminated'')]\<rparr>)
        [''bad.csv''] internal_init) = []"
  using C2_failed_upload_keeps_batch
    [of "\<lambda>f. \<lparr>data = [],
               errors = [ParseError (js ''Quotes'') (js ''MissingQuotes'')
                           (js ''Quoted field unterminated'')]\<rparr>"
        "''bad.csv''" "[]" client_init internal_init]
  by (simp add: internal_init_def)

text \<open>
  Claim C2 as written fails: a file that parses is uploaded, then a file whose parse
  reports an error. The record set is not empty afterwards.
\<close>

theorem C2_batch_not_cleared:
  "items (client_onDrop
            (\<lambda>f. if f = ''good.csv''
                  then \<lparr>data = [Map.empty(js ''name'' \<mapsto> js ''Shirt'', js ''category'' \<mapsto> js ''Tops'')],
                        errors = []\<rparr>
                  else \<lparr>data = [],
                        errors = [ParseError (js ''Quotes'') (js ''MissingQuotes'')
                                    (js ''Quoted field unterminated'')]\<rparr>)
            [''bad.csv'']
            (client_onDrop
              (\<lambda>f. if f = ''good.csv''
                  then \<lparr>data = [Map.empty(js ''name'' \<mapsto> js ''Shirt'', js ''category'' \<mapsto> js ''Tops'')],
                        errors = []\<rparr>
                  else \<lparr>data = [],
                        errors = [ParseError (js ''Quotes'') (js ''MissingQuotes'')
                                    (js ''Quoted field unterminated'')]\<rparr>)
              [''good.csv''] client_init)) \<noteq> []"
  by (simp add: client_onDrop_def client_complete_def enumerate_eq_zip)

text \<open>
  Claim C10. When the parse of the dropped file reports one or more errors, the state after
  the upload is the state before it with only the error message set: the items, the search
  term, the two filters, the current page and (client component) the view mode keep their
  values.
\<close>

theorem C10_parse_error_frame:
  assumes "errors (papa file) \<noteq> []"
  shows "client_onDrop papa (file # fs) cs =
           cs\<lparr>error := Some (js ''Error parsing CSV file. Please check the file format.'')\<rparr>
       \<and> internal_onDrop papa (file # fs) s =
           s\<lparr>error := Some (js ''Error parsing CSV file. Please check the file format.'')\<rparr>
       \<and> items (client_onDrop papa (file # fs) cs) = items cs
       \<and> searchTerm (client_onDrop papa (file # fs) cs) = searchTerm cs
       \<and> categoryFilter (client_onDrop papa (file # fs) cs) = categoryFilter cs
       \<and> statusFilter (client_onDrop papa (file # fs) cs) = statusFilter cs
       \<and> currentPage (client_onDrop papa (file # fs) cs) = currentPage cs
       \<and> viewMode (client_onDrop papa (file # fs) cs) = viewMode cs
       \<and> items (internal_onDrop papa (file # fs) s) = items s
       \<and> searchTerm (internal_onDrop papa (file # fs) s) = searchTerm s
       \<and> categoryFilter (internal_onDrop papa (file # fs) s) = categoryFilter s
       \<and> statusFilter (internal_onDrop papa (file # fs) s) = statusFilter s
       \<and> currentPage (internal_onDrop papa (file # fs) s) = currentPage s"
  using assms by (simp add: client_onDrop_def internal_onDrop_def complete_with_errors)

theorem C10_parse_error_frame_witness:
  "errors ((\<lambda>f. \<lparr>data = [Map.empty(js ''name'' \<mapsto> js ''Coat'')],
                 errors = [ParseError (js ''FieldMismatch'') (js ''TooFewFields'')
                             (js ''Too few fields'')]\<rparr>) ''bad.csv'') \<noteq> []
   \<and> client_onDrop
        (\<lambda>f. \<lparr>data = [Map.empty(js ''name'' \<mapsto> js ''Coat'')],
               errors = [ParseError (js ''FieldMismatch'') (js ''TooFewFields'')
                           (js ''Too few fields'')]\<rparr>)
        [''bad.csv''] (client_init\<lparr>currentPage := 2, searchTerm := js ''shirt''\<rparr>)
     = client_init\<lparr>currentPage := 2, searchTerm := js ''shirt'',
                   error := Some (js ''Error parsing CSV file. Please check the file format.'')\<rparr>"
  using C10_parse_error_frame
    [of "\<lambda>f. \<lparr>data = [Map.empty(js ''name'' \<mapsto> js ''Coat'')],
               errors = [ParseError (js ''FieldMismatch'') (js ''TooFewFields'')
                           (js ''Too few fields'')]\<rparr>"
        "''bad.csv''" "[]" "client_init\<lparr>currentPage := 2, searchTerm := js ''shirt''\<rparr>" internal_init]
  by simp

subsection \<open>Pagination\<close>

lemma totalPages_le_iff:
  "0 < n \<Longrightarrow> totalPages n xs \<le> k \<longleftrightarrow> int (length xs) \<le> k * int n"
proof -
  assume n: "0 < n"
  have "totalPages n xs \<le> k \<longleftrightarrow> real (length xs) / real n \<le> of_int k"
    by (simp add: totalPages_def ceiling_le_iff)
  also have "\<dots> \<longleftrightarrow> real (length xs) \<le> of_int k * real n"
    using n by (simp add: pos_divide_le_eq)
  also have "\<dots> \<longleftrightarrow> real_of_int (int (length xs)) \<le> real_of_int (k * int n)"
    by simp
  also have "\<dots> \<longleftrightarrow> int (length xs) \<le> k * int n"
    by (rule of_int_le_iff)
  finally show ?thesis .
qed

lemma js_slice_page:
  assumes "0 \<le> a"
  shows "js_slice xs a (a + int n) = take n (drop (nat a) xs)"
proof (cases "a < int (length xs)")
  case True
  have "nat (min (a + int n) (int (length xs)) - a) = min n (length xs - nat a)"
    using assms True by (simp add: min_def) linarith
  then show ?thesis
    using assms True by (simp add: js_slice_def Let_def min_def)
next
  case False
  then show ?thesis
    using assms by (simp add: js_slice_def Let_def min_def)
qed

lemma displayedItems_take_drop:
  "1 \<le> p \<Longrightarrow> displayedItems n filtered p = take n (drop (nat ((p - 1) * int n)) filtered)"
  by (simp add: displayedItems_def startIndex_def js_slice_page)

lemma displayed_length_range:
  assumes n: "0 < n" and p: "1 \<le> p" "p \<le> totalPages n filtered"
  shows "int (length (displayedItems n filtered p)) =
           snd (displayRange n filtered p) - fst (displayRange n filtered p) + 1"
proof -
  have "\<not> totalPages n filtered \<le> p - 1" using p by simp
  then have lt: "(p - 1) * int n < int (length filtered)"
    using totalPages_le_iff[OF n, of filtered "p - 1"] by simp
  have nonneg: "0 \<le> (p - 1) * int n" using p by simp
  have "int (length (displayedItems n filtered p)) =
          int (min (length filtered - nat ((p - 1) * int n)) n)"
    using p by (simp add: displayedItems_take_drop)
  also have "\<dots> = min ((p - 1) * int n + int n) (int (length filtered)) - (p - 1) * int n"
    using lt nonneg by (simp add: min_def) linarith
  finally show ?thesis
    by (simp add: displayRange_def startIndex_def)
qed

text \<open>
  Claim C6. With page size \<open>n\<close> (9 in the client component, 10 in the internal one), a
  filtered sequence and a current page \<open>p\<close>: the displayed items are the slice of the
  filtered sequence from \<open>(p - 1) * n\<close> to \<open>p * n\<close>, which for \<open>p \<ge> 1\<close> is the \<open>n\<close> items
  after the first \<open>(p - 1) * n\<close>; the number of pages is the ceiling of the count over \<open>n\<close>,
  the least \<open>k\<close> with \<open>count \<le> k * n\<close>; an empty sequence has 0 pages and an empty slice;
  the display range is \<open>(startIndex + 1, min (startIndex + n) count)\<close>, and on every page
  from 1 to the last it spans exactly the displayed items.
\<close>

theorem C6_paginator:
  "client_itemsPerPage = 9 \<and> internal_itemsPerPage = 10
   \<and> startIndex n p = (p - 1) * int n
   \<and> displayedItems n filtered p = js_slice filtered ((p - 1) * int n) (p * int n)
   \<and> (1 \<le> p \<longrightarrow> displayedItems n filtered p = take n (drop (nat ((p - 1) * int n)) filtered))
   \<and> totalPages n filtered = \<lceil>real (length filtered) / real n\<rceil>
   \<and> (0 < n \<longrightarrow> (\<forall>k. totalPages n filtered \<le> k \<longleftrightarrow> int (length filtered) \<le> k * int n))
   \<and> (filtered = [] \<longrightarrow> totalPages n filtered = 0 \<and> displayedItems n filtered p = [])
   \<and> displayRange n filtered p =
        (startIndex n p + 1, min (startIndex n p + int n) (int (length filtered)))
   \<and> (0 < n \<longrightarrow> 1 \<le> p \<longrightarrow> p \<le> totalPages n filtered \<longrightarrow>
        int (length (displayedItems n filtered p)) =
          snd (displayRange n filtered p) - fst (displayRange n filtered p) + 1)"
proof -
  have a: "displayedItems n filtered p = js_slice filtered ((p - 1) * int n) (p * int n)"
    by (simp add: displayedItems_def startIndex_def algebra_simps)
  have b: "filtered = [] \<longrightarrow> totalPages n filtered = 0 \<and> displayedItems n filtered p = []"
    by (simp add: totalPages_def displayedItems_def js_slice_def)
  show ?thesis
    using a b displayedItems_take_drop[of p n filtered] totalPages_le_iff[of n filtered]
      displayed_length_range[of n p filtered]
    by (simp add: client_itemsPerPage_def internal_itemsPerPage_def startIndex_def
          displayRange_def totalPages_def)
qed

theorem C6_paginator_witness:
  "0 < client_itemsPerPage \<and> (1::int) \<le> 2
   \<and> 2 \<le> totalPages client_itemsPerPage [1, 2, 3, 4, 5, 6, 7, 8, 9, 10, 11, 12 :: nat]
   \<and> displayedItems client_itemsPerPage [1, 2, 3, 4, 5, 6, 7, 8, 9, 10, 11, 12 :: nat] 2 = [10, 11, 12]
   \<and> displayRange client_itemsPerPage [1, 2, 3, 4, 5, 6, 7, 8, 9, 10, 11, 12 :: nat] 2 = (10, 12)
   \<and> int (length (displayedItems client_itemsPerPage [1, 2, 3, 4, 5, 6, 7, 8, 9, 10, 11, 12 :: nat] 2)) = 12 - 10 + 1"
proof -
  let ?xs = "[1, 2, 3, 4, 5, 6, 7, 8, 9, 10, 11, 12 :: nat]"
  have n: "0 < client_itemsPerPage" by (simp add: client_itemsPerPage_def)
  have p: "(1::int) \<le> 2" by simp
  have tp: "2 \<le> totalPages client_itemsPerPage ?xs"
    by (simp add: totalPages_def client_itemsPerPage_def)
  from C6_paginator[of client_itemsPerPage 2 ?xs]
  have d: "1 \<le> (2::int) \<longrightarrow> displayedItems client_itemsPerPage ?xs 2 =
             take client_itemsPerPage (drop (nat ((2 - 1) * int client_itemsPerPage)) ?xs)"
    and r: "displayRange client_itemsPerPage ?xs 2 =
             (startIndex client_itemsPerPage 2 + 1,
              min (startIndex client_itemsPerPage 2 + int client_itemsPerPage) (int (length ?xs)))"
    and l: "0 < client_itemsPerPage \<longrightarrow> 1 \<le> (2::int) \<longrightarrow> 2 \<le> totalPages client_itemsPerPage ?xs \<longrightarrow>
        int (length (displayedItems client_itemsPerPage ?xs 2)) =
          snd (displayRange client_itemsPerPage ?xs 2) - fst (displayRange client_itemsPerPage ?xs 2) + 1"
    and s: "startIndex client_itemsPerPage 2 = (2 - 1) * int client_itemsPerPage"
    by blast+
  have d': "displayedItems client_itemsPerPage ?xs 2 = [10, 11, 12]"
    using d by (simp add: client_itemsPerPage_def)
  have r': "displayRange client_itemsPerPage ?xs 2 = (10, 12)"
    using r s by (simp add: client_itemsPerPage_def)
  have l': "int (length (displayedItems client_itemsPerPage ?xs 2)) = 12 - 10 + 1"
    using l n p tp r' by simp
  show ?thesis using n p tp d' r' l' by blast
qed

subsection \<open>The current page\<close>

lemma onDrop_currentPage:
  "currentPage (client_onDrop papa fs cs) = currentPage cs"
  "currentPage (internal_onDrop papa fs s) = currentPage s"
  by (simp_all add: client_onDrop_def internal_onDrop_def client_complete_def
        internal_complete_def Let_def split: list.split)

lemma client_run_reachable: "client_reachable U papa (client_run U papa es client_init)"
proof (induction es rule: rev_induct)
  case Nil
  show ?case by (simp add: client_run_def client_reachable_init)
next
  case (snoc e es)
  then show ?case by (simp add: client_run_def client_reachable_step)
qed

lemma internal_run_reachable: "internal_reachable U papa (internal_run U papa es internal_init)"
proof (induction es rule: rev_induct)
  case Nil
  show ?case by (simp add: internal_run_def internal_reachable_init)
next
  case (snoc e es)
  then show ?case by (simp add: internal_run_def internal_reachable_step)
qed

lemma client_step_page_ge_1: "1 \<le> currentPage s \<Longrightarrow> 1 \<le> currentPage (client_step U papa e s)"
proof (cases e)
  case (Shared ev)
  assume "1 \<le> currentPage s"
  then show ?thesis unfolding Shared
    by (cases ev)
       (simp_all add: onDrop_currentPage setSearchTerm_def setCategoryFilter_def
          setStatusFilter_def previousPage_def nextPage_def nextEnabled_def)
next
  case (ViewModeSelect v)
  assume "1 \<le> currentPage s"
  then show ?thesis unfolding ViewModeSelect by (simp add: setViewMode_def)
qed

lemma internal_step_page_ge_1: "1 \<le> currentPage s \<Longrightarrow> 1 \<le> currentPage (internal_step U papa e s)"
  by (cases e)
     (simp_all add: onDrop_currentPage setSearchTerm_def setCategoryFilter_def
        setStatusFilter_def previousPage_def nextPage_def nextEnabled_def)

lemma client_reachable_page_ge_1: "client_reachable U papa s \<Longrightarrow> 1 \<le> currentPage s"
  by (induction rule: client_reachable.induct)
     (simp_all add: client_init_def client_step_page_ge_1)

lemma internal_reachable_page_ge_1: "internal_reachable U papa s \<Longrightarrow> 1 \<le> currentPage s"
  by (induction rule: internal_reachable.induct)
     (simp_all add: internal_init_def internal_step_page_ge_1)

lemma view_filtered_currentPage [simp]:
  "view_filtered U (s\<lparr>currentPage := p\<rparr>) = view_filtered U s"
  by (simp add: view_filtered_def)

lemma navigation_keeps_range:
  "page_in_range U n s \<Longrightarrow> page_in_range U n (if previousEnabled U n s then previousPage s else s)"
  "page_in_range U n s \<Longrightarrow> page_in_range U n (if nextEnabled U n s then nextPage U n s else s)"
  by (auto simp: page_in_range_def previousPage_def nextPage_def previousEnabled_def nextEnabled_def)

lemma toLowerCase_Nil: "toLowerCase U [] = []"
  by (simp add: toLowerCase_def)

lemma filteredItems_all: "filteredItems U its [] (js ''All'') (js ''All'') = its"
proof -
  have "includes_str s []" for s by (cases s) simp_all
  then show ?thesis by (simp add: filteredItems_def toLowerCase_Nil)
qed

lemma filteredItems_none:
  "\<forall>r \<in> set its. \<not> includes_str (toLowerCase U (name r)) (toLowerCase U st) \<Longrightarrow>
     filteredItems U its st sf cf = []"
  by (simp add: filteredItems_def)

lemmas lower_eval = toLowerCase_def js_def inFragment_def isAsciiUpper_def isAsciiLower_def
  isGreekUpper_def isGreekLower_def cased_def caseIgnorable_def followedByCased_def

text \<open>
  A session of the client component: a file of two columns and ten rows named \<open>shirt\<close> is
  dropped, the next button is clicked, and \<open>z\<close> is typed into the search box.
\<close>

lemma ten_shirts_page_2:
  fixes P :: "unit \<Rightarrow> ParseResult"
  assumes P: "P = (\<lambda>f. \<lparr>data = replicate 10 (Map.empty(js ''name'' \<mapsto> js ''shirt'', js ''category'' \<mapsto> js ''tops'')),
                      errors = []\<rparr>)"
  shows "currentPage (client_run U P [Shared (Drop [()]), Shared NextClick, Shared (SearchInput (js ''z''))] client_init) = 2"
    and "view_filtered U (client_run U P [Shared (Drop [()]), Shared NextClick, Shared (SearchInput (js ''z''))] client_init) = []"
proof -
  let ?its = "map (\<lambda>(index, row). client_coerce row index)
                (enumerate 0 (replicate 10 (Map.empty(js ''name'' \<mapsto> js ''shirt'', js ''category'' \<mapsto> js ''tops''))))"
  let ?s1 = "client_init\<lparr>items := ?its, error := None\<rparr>"
  have s1: "client_step U P (Shared (Drop [()])) client_init = ?s1"
    by (simp add: P client_onDrop_def client_complete_def)
  have f1: "view_filtered U ?s1 = ?its"
    by (simp add: view_filtered_def client_init_def filteredItems_all)
  have tp: "totalPages client_itemsPerPage ?its = 2"
    by (simp add: totalPages_def client_itemsPerPage_def)
  have s2: "client_step U P (Shared NextClick) ?s1 = ?s1\<lparr>currentPage := 2\<rparr>"
    by (simp add: nextEnabled_def nextPage_def f1 tp) (simp add: client_init_def)
  have s3: "client_step U P (Shared (SearchInput (js ''z''))) (?s1\<lparr>currentPage := 2\<rparr>)
              = ?s1\<lparr>currentPage := 2, searchTerm := js ''z''\<rparr>"
    by (simp add: setSearchTerm_def)
  have run: "client_run U P [Shared (Drop [()]), Shared NextClick, Shared (SearchInput (js ''z''))] client_init
              = ?s1\<lparr>currentPage := 2, searchTerm := js ''z''\<rparr>"
    unfolding client_run_def by (simp only: foldl_Cons foldl_Nil s1 s2 s3)
  show "currentPage (client_run U P [Shared (Drop [()]), Shared NextClick, Shared (SearchInput (js ''z''))] client_init) = 2"
    by (simp add: run)
  have key: "js ''name'' \<noteq> js ''category''" by (simp add: js_def)
  have names: "\<forall>r \<in> set ?its. name r = js ''shirt''"
    using key by (auto simp: client_coerce_def str_or_empty_def in_set_enumerate_eq js_def)
  have "\<not> includes_str (toLowerCase U (js ''shirt'')) (toLowerCase U (js ''z''))"
    by (simp add: lower_eval)
  then have "\<forall>r \<in> set ?its. \<not> includes_str (toLowerCase U (name r)) (toLowerCase U (js ''z''))"
    using names by simp
  then show "view_filtered U (client_run U P [Shared (Drop [()]), Shared NextClick, Shared (SearchInput (js ''z''))] client_init) = []"
    by (simp add: run view_filtered_def filteredItems_none)
qed

text \<open>
  Claim C3, as amended. In every reachable state of either component the current page is
  at least 1. The current page lies in \<open>[1, max(1, totalPages)]\<close> in the initial state, and
  the two page buttons keep it there. A change of the search term, of the category filter
  or of the status filter, and an ingestion, leave the current page as it is: none of them
  brings it back into the interval. (The claim as written says that the current page is in
  the interval in every reachable state.)
\<close>

theorem C3_current_page:
  assumes "client_reachable U papa cs" and "internal_reachable U papa' s"
  shows "1 \<le> currentPage cs \<and> 1 \<le> currentPage s
    \<and> page_in_range U client_itemsPerPage client_init
    \<and> page_in_range U internal_itemsPerPage internal_init
    \<and> (page_in_range U client_itemsPerPage cs \<longrightarrow>
         page_in_range U client_itemsPerPage (client_step U papa (Shared PreviousClick) cs)
       \<and> page_in_range U client_itemsPerPage (client_step U papa (Shared NextClick) cs))
    \<and> (page_in_range U internal_itemsPerPage s \<longrightarrow>
         page_in_range U internal_itemsPerPage (internal_step U papa' PreviousClick s)
       \<and> page_in_range U internal_itemsPerPage (internal_step U papa' NextClick s))
    \<and> currentPage (client_step U papa (Shared (SearchInput v)) cs) = currentPage cs
    \<and> currentPage (client_step U papa (Shared (CategorySelect v)) cs) = currentPage cs
    \<and> currentPage (client_step U papa (Shared (StatusSelect v)) cs) = currentPage cs
    \<and> currentPage (client_step U papa (Shared (Drop fs)) cs) = currentPage cs
    \<and> currentPage (internal_step U papa' (SearchInput v) s) = currentPage s
    \<and> currentPage (internal_step U papa' (CategorySelect v) s) = currentPage s
    \<and> currentPage (internal_step U papa' (StatusSelect v) s) = currentPage s
    \<and> currentPage (internal_step U papa' (Drop fs') s) = currentPage s"
proof -
  have a: "1 \<le> currentPage cs" "1 \<le> currentPage s"
    using assms client_reachable_page_ge_1 internal_reachable_page_ge_1 by blast+
  have b: "page_in_range U client_itemsPerPage client_init"
     "page_in_range U internal_itemsPerPage internal_init"
    by (simp_all add: page_in_range_def client_init_def internal_init_def)
  have c: "page_in_range U client_itemsPerPage cs \<longrightarrow>
         page_in_range U client_itemsPerPage (client_step U papa (Shared PreviousClick) cs)
       \<and> page_in_range U client_itemsPerPage (client_step U papa (Shared NextClick) cs)"
    using navigation_keeps_range[of U client_itemsPerPage cs] by simp
  have d: "page_in_range U internal_itemsPerPage s \<longrightarrow>
         page_in_range U internal_itemsPerPage (internal_step U papa' PreviousClick s)
       \<and> page_in_range U internal_itemsPerPage (internal_step U papa' NextClick s)"
    using navigation_keeps_range[of U internal_itemsPerPage s] by simp
  have e: "currentPage (client_step U papa (Shared (SearchInput v)) cs) = currentPage cs"
    "currentPage (client_step U papa (Shared (CategorySelect v)) cs) = currentPage cs"
    "currentPage (client_step U papa (Shared (StatusSelect v)) cs) = currentPage cs"
    "currentPage (client_step U papa (Shared (Drop fs)) cs) = currentPage cs"
    "currentPage (internal_step U papa' (SearchInput v) s) = currentPage s"
    "currentPage (internal_step U papa' (CategorySelect v) s) = currentPage s"
    "currentPage (internal_step U papa' (StatusSelect v) s) = currentPage s"
    "currentPage (internal_step U papa' (Drop fs') s) = currentPage s"
    by (simp_all add: onDrop_currentPage setSearchTerm_def setCategoryFilter_def setStatusFilter_def)
  show ?thesis using a b c d e by blast
qed

theorem C3_current_page_witness:
  "client_reachable (\<lambda>s. s)
     (\<lambda>f::unit. \<lparr>data = replicate 10 (Map.empty(js ''name'' \<mapsto> js ''shirt'', js ''category'' \<mapsto> js ''tops'')),
                 errors = []\<rparr>)
     (client_run (\<lambda>s. s)
        (\<lambda>f::unit. \<lparr>data = replicate 10 (Map.empty(js ''name'' \<mapsto> js ''shirt'', js ''category'' \<mapsto> js ''tops'')),
                    errors = []\<rparr>)
        [Shared (Drop [()]), Shared NextClick, Shared (SearchInput (js ''z''))] client_init)
   \<and> internal_reachable (\<lambda>s. s)
       (\<lambda>f::unit. \<lparr>data = replicate 10 (Map.empty(js ''name'' \<mapsto> js ''shirt'', js ''category'' \<mapsto> js ''tops'')),
                   errors = []\<rparr>)
       internal_init
   \<and> 1 \<le> currentPage
       (client_run (\<lambda>s. s)
          (\<lambda>f::unit. \<lparr>data = replicate 10 (Map.empty(js ''name'' \<mapsto> js ''shirt'', js ''category'' \<mapsto> js ''tops'')),
                      errors = []\<rparr>)
          [Shared (Drop [()]), Shared NextClick, Shared (SearchInput (js ''z''))] client_init)
   \<and> currentPage
       (client_step (\<lambda>s. s)
          (\<lambda>f::unit. \<lparr>data = replicate 10 (Map.empty(js ''name'' \<mapsto> js ''shirt'', js ''category'' \<mapsto> js ''tops'')),
                      errors = []\<rparr>)
          (Shared (CategorySelect (js ''Tops'')))
          (client_run (\<lambda>s. s)
             (\<lambda>f::unit. \<lparr>data = replicate 10 (Map.empty(js ''name'' \<mapsto> js ''shirt'', js ''category'' \<mapsto> js ''tops'')),
                         errors = []\<rparr>)
             [Shared (Drop [()]), Shared NextClick, Shared (SearchInput (js ''z''))] client_init)) = 2"
proof -
  let ?U = "\<lambda>s::jsstring. s"
  let ?P = "\<lambda>f::unit. \<lparr>data = replicate 10 (Map.empty(js ''name'' \<mapsto> js ''shirt'', js ''category'' \<mapsto> js ''tops'')),
                        errors = []\<rparr>"
  let ?S = "client_run ?U ?P [Shared (Drop [()]), Shared NextClick, Shared (SearchInput (js ''z''))] client_init"
  have r1: "client_reachable ?U ?P ?S" by (rule client_run_reachable)
  have r2: "internal_reachable ?U ?P internal_init" by (rule internal_reachable_init)
  from C3_current_page[OF r1 r2, of "js ''Tops''"]
  have "1 \<le> currentPage ?S"
    and "currentPage (client_step ?U ?P (Shared (CategorySelect (js ''Tops''))) ?S) = currentPage ?S"
    by blast+
  then show ?thesis
    using r1 r2 ten_shirts_page_2(1)[OF refl, of ?U] by simp
qed

text \<open>
  Claim C3 as written fails in the session above: the state is reachable, its current page
  is 2 and its filtered set is empty, so that \<open>max(1, totalPages)\<close> is 1.
\<close>

theorem C3_page_out_of_range:
  "client_reachable (\<lambda>s. s)
     (\<lambda>f::unit. \<lparr>data = replicate 10 (Map.empty(js ''name'' \<mapsto> js ''shirt'', js ''category'' \<mapsto> js ''tops'')),
                 errors = []\<rparr>)
     (client_run (\<lambda>s. s)
        (\<lambda>f::unit. \<lparr>data = replicate 10 (Map.empty(js ''name'' \<mapsto> js ''shirt'', js ''category'' \<mapsto> js ''tops'')),
                    errors = []\<rparr>)
        [Shared (Drop [()]), Shared NextClick, Shared (SearchInput (js ''z''))] client_init)
   \<and> \<not> (currentPage
          (client_run (\<lambda>s. s)
             (\<lambda>f::unit. \<lparr>data = replicate 10 (Map.empty(js ''name'' \<mapsto> js ''shirt'', js ''category'' \<mapsto> js ''tops'')),
                         errors = []\<rparr>)
             [Shared (Drop [()]), Shared NextClick, Shared (SearchInput (js ''z''))] client_init)
        \<le> max 1 (totalPages client_itemsPerPage (view_filtered (\<lambda>s. s)
          (client_run (\<lambda>s. s)
             (\<lambda>f::unit. \<lparr>data = replicate 10 (Map.empty(js ''name'' \<mapsto> js ''shirt'', js ''category'' \<mapsto> js ''tops'')),
                         errors = []\<rparr>)
             [Shared (Drop [()]), Shared NextClick, Shared (SearchInput (js ''z''))] client_init))))"
  using ten_shirts_page_2[OF refl, of "\<lambda>s. s"] client_run_reachable
  by (simp add: totalPages_def)

text \<open>
  Claim C4, as amended. In the client component a change of the search term, of the
  category filter or of the status filter leaves the current page as it is. (The claim as
  written says that the current page is reset to 1.)
\<close>

theorem C4_filter_change_keeps_page:
  "currentPage (client_step U papa (Shared (SearchInput v)) cs) = currentPage cs
   \<and> currentPage (client_step U papa (Shared (CategorySelect v)) cs) = currentPage cs
   \<and> currentPage (client_step U papa (Shared (StatusSelect v)) cs) = currentPage cs"
  by (simp add: setSearchTerm_def setCategoryFilter_def setStatusFilter_def)

text \<open>
  Claim C4 as written fails: on page 2 of the ten shirts the search term is changed, and
  the current page is not 1 afterwards.
\<close>

theorem C4_page_not_reset:
  "currentPage
     (client_step (\<lambda>s. s)
        (\<lambda>f::unit. \<lparr>data = replicate 10 (Map.empty(js ''name'' \<mapsto> js ''shirt'', js ''category'' \<mapsto> js ''tops'')),
                    errors = []\<rparr>)
        (Shared (SearchInput (js ''z'')))
        (client_run (\<lambda>s. s)
           (\<lambda>f::unit. \<lparr>data = replicate 10 (Map.empty(js ''name'' \<mapsto> js ''shirt'', js ''category'' \<mapsto> js ''tops'')),
                       errors = []\<rparr>)
           [Shared (Drop [()]), Shared NextClick] client_init)) \<noteq> 1"
  using ten_shirts_page_2(1)[OF refl, of "\<lambda>s. s"] by (simp add: client_run_def)

subsection \<open>Filter\<close>










text \<open>
  Claim C9. Filtering is idempotent: the filter applied to its own result with the same
  search term and filters gives that result again.
\<close>

theorem C9_filter_idempotent:
  "filteredItems U (filteredItems U its st sf cf) st sf cf = filteredItems U its st sf cf"
  by (simp add: filteredItems_def)

subsection \<open>Rounding\<close>

text \<open>
  The exponent function is the integer binary logarithm, and a real that is an integer
  multiple of the power of two at its own exponent is rounded to itself.
\<close>

lemma pow2_powr: "pow2 e = 2 powr real_of_int e"
proof (cases "0 \<le> e")
  case True
  then have "2 powr real_of_int e = 2 powr real (nat e)" by simp
  also have "\<dots> = 2 ^ nat e" by (simp add: powr_realpow)
  finally show ?thesis using True by (simp add: pow2_def)
next
  case False
  then have "2 powr real_of_int e = 2 powr (- real (nat (- e)))" by simp
  also have "\<dots> = 1 / 2 ^ nat (- e)" by (simp add: powr_minus powr_realpow divide_inverse)
  finally show ?thesis using False by (simp add: pow2_def)
qed

lemma pow2_pos: "0 < pow2 e"
  by (simp add: pow2_powr)

lemma pow2_less_iff: "pow2 a < pow2 b \<longleftrightarrow> a < b"
  by (simp add: pow2_powr)

lemma pow2_le_iff: "pow2 a \<le> pow2 b \<longleftrightarrow> a \<le> b"
  by (simp add: pow2_powr)

lemma ilog2_bounds:
  assumes "0 < x"
  shows "pow2 (ilog2 x) \<le> x \<and> x < pow2 (ilog2 x + 1)"
proof (cases "1 \<le> x")
  case True
  define n where "n = \<lfloor>x\<rfloor>"
  have n: "0 < n" using True by (simp add: n_def)
  define b where "b = bitlen n"
  have bb: "2 ^ nat (b - 1) \<le> n" "n < 2 ^ nat b"
    using bitlen_bounds[OF n] by (simp_all add: b_def)
  have b1: "1 \<le> b" using n by (simp add: b_def bitlen_def floorlog_def)
  have lo: "real_of_int (2 ^ nat (b - 1)) \<le> x"
    using bb(1) by (metis n_def of_int_floor_le of_int_le_iff order_trans)
  have "n + 1 \<le> 2 ^ nat b" using bb(2) by simp
  then have "real_of_int (n + 1) \<le> real_of_int (2 ^ nat b)" by (simp only: of_int_le_iff)
  moreover have "x < real_of_int (n + 1)" by (simp add: n_def)
  ultimately have hi: "x < real_of_int (2 ^ nat b)" by linarith
  have i: "ilog2 x = b - 1" using True by (simp add: ilog2_def n_def b_def)
  show ?thesis
    using lo hi b1 by (simp add: i pow2_def)
next
  case False
  define y where "y = 1 / x"
  have y: "1 < y" using False assms by (simp add: y_def)
  define m where "m = \<lceil>y\<rceil> - 1"
  have m0: "0 < m" using y by (simp add: m_def; linarith)
  define b where "b = bitlen m"
  have bb: "2 ^ nat (b - 1) \<le> m" "m < 2 ^ nat b"
    using bitlen_bounds[OF m0] by (simp_all add: b_def)
  have b1: "1 \<le> b" using m0 by (simp add: b_def bitlen_def floorlog_def)
  have "m + 1 \<le> 2 ^ nat b" using bb(2) by simp
  then have "real_of_int (m + 1) \<le> real_of_int (2 ^ nat b)" by (simp only: of_int_le_iff)
  moreover have "y \<le> real_of_int (m + 1)" by (simp add: m_def)
  ultimately have yhi: "y \<le> 2 ^ nat b" by simp
  have "(2::real) ^ nat (b - 1) \<le> real_of_int m"
    using of_int_le_iff[where ?'a = real, of "2 ^ nat (b - 1)" m] bb(1) by simp
  moreover have "real_of_int m < y" by (simp add: m_def; linarith)
  ultimately have ylo: "2 ^ nat (b - 1) < y" by linarith
  have i: "ilog2 x = - b" using False by (simp add: ilog2_def y_def m_def b_def)
  have x: "x = 1 / y" by (simp add: y_def)
  have lo: "1 / 2 ^ nat b \<le> x"
    unfolding x using yhi y by (simp add: frac_le)
  have hi: "x < 1 / 2 ^ nat (b - 1)"
    unfolding x using ylo by (simp add: frac_less2)
  show ?thesis
  proof (cases "b = 1")
    case True
    then show ?thesis using lo hi by (simp add: i pow2_def)
  next
    case False
    then have "nat (b - 1) = nat (- (1 - b))" "\<not> 0 \<le> 1 - b" "\<not> 0 \<le> - b"
      using b1 by simp_all
    then show ?thesis using lo hi b1 by (simp add: i pow2_def)
  qed
qed

lemma ilog2_unique:
  assumes "pow2 k \<le> x" and "x < pow2 (k + 1)"
  shows "ilog2 x = k"
proof -
  have x: "0 < x" using assms(1) pow2_pos[of k] by linarith
  from ilog2_bounds[OF x] assms
  have "pow2 (ilog2 x) < pow2 (k + 1)" "pow2 k < pow2 (ilog2 x + 1)"
    by linarith+
  then show ?thesis by (simp add: pow2_less_iff)
qed

lemma fl_exact:
  assumes "x \<noteq> 0" and "\<bar>x\<bar> / pow2 (exponent_of \<bar>x\<bar>) = real_of_int z" and "\<bar>x\<bar> < 2 ^ 1024"
  shows "fl x = Fin x"
proof -
  have r: "round_half_even (real_of_int z) = z"
    by (simp add: round_half_even_def)
  have s: "significand_of \<bar>x\<bar> = z"
    by (simp add: significand_of_def assms(2) r)
  have v: "real_of_int z * pow2 (exponent_of \<bar>x\<bar>) = \<bar>x\<bar>"
    using assms(2) pow2_pos[of "exponent_of \<bar>x\<bar>"] by (simp add: field_simps)
  have z: "z \<noteq> 0" using v assms(1) by auto
  show ?thesis
    using assms(1,3) z by (auto simp: fl_def s v zero_def inf_def)
qed

lemmas num_eval = fl_def exponent_of_def significand_of_def ilog2_def compute_bitlen pow2_def
  round_half_even_def isNeg_def isZero_def isInf_def valueOf_def zero_def inf_def

text \<open>Twice the Number nearest to \<open>1e308\<close> is beyond the largest Number.\<close>

lemma big_sum_overflows: "fl 200000000000000002195812725888091083480984619354623692673621365806315170809822983074326657956989377798122499339442345031223180567486280176656614018396292092062543329005866054371394979399177118086676768932330002356853795252425890355256182391573414916245567940343568830210583605786415746545949771430860446236672 = PosInfinity"
proof -
  have i: "ilog2 200000000000000002195812725888091083480984619354623692673621365806315170809822983074326657956989377798122499339442345031223180567486280176656614018396292092062543329005866054371394979399177118086676768932330002356853795252425890355256182391573414916245567940343568830210583605786415746545949771430860446236672 = 1024"
    by (rule ilog2_unique) (simp_all add: pow2_def)
  have e: "exponent_of 200000000000000002195812725888091083480984619354623692673621365806315170809822983074326657956989377798122499339442345031223180567486280176656614018396292092062543329005866054371394979399177118086676768932330002356853795252425890355256182391573414916245567940343568830210583605786415746545949771430860446236672 = 972"
    by (simp add: exponent_of_def i)
  have m: "significand_of 200000000000000002195812725888091083480984619354623692673621365806315170809822983074326657956989377798122499339442345031223180567486280176656614018396292092062543329005866054371394979399177118086676768932330002356853795252425890355256182391573414916245567940343568830210583605786415746545949771430860446236672 = 5010420900022432"
    by (simp add: significand_of_def e pow2_def round_half_even_def)
  show ?thesis
    by (simp add: fl_def e m pow2_def inf_def)
qed

subsection \<open>Header normalization and coercion\<close>

lemmas parse_eval = parseInt_def parseFloat_def parseExponent_def ToString_def js_def
  isWhiteSpace_def startsWithChar_def isRadixDigit_def isDecimalDigit_def digitsValue_def
  digitValue_def scale10_def Let_def

lemma parse_undefined: "parseInt None = NaN" "parseFloat None = NaN"
  by (simp_all add: parse_eval)

lemma coerce_fields:
  "minOrderQuantity (client_coerce row i) = num_or_zero (parseInt (row (js ''minOrderQuantity'')))"
  "balance (client_coerce row i) = num_or_zero (parseFloat (row (js ''balance'')))"
  "minOrderQuantity (internal_coerce row i) = num_or_zero (parseInt (row (js ''minOrderQuantity'')))"
  "sampleCost (internal_coerce row i) = num_or_zero (parseFloat (row (js ''sampleCost'')))"
  "productionCost (internal_coerce row i) = num_or_zero (parseFloat (row (js ''productionCost'')))"
  "factoryCost (internal_coerce row i) = num_or_zero (parseFloat (row (js ''factoryCost'')))"
  "name (client_coerce row i) = str_or_empty (row (js ''name''))"
  "name (internal_coerce row i) = str_or_empty (row (js ''name''))"
  by (simp_all add: client_coerce_def internal_coerce_def)

lemma num_or_zero_NaN: "num_or_zero NaN = Fin 0"
  by (simp add: num_or_zero_def)

lemma upper_shift: "isAsciiUpper c \<or> isGreekUpper c \<Longrightarrow> \<not> isAsciiUpper (c + 0x20)"
  unfolding isAsciiUpper_def isGreekUpper_def by unat_arith

lemma lowerFrom_no_upper: "c \<in> set (lowerFrom after s) \<Longrightarrow> \<not> isAsciiUpper c"
proof (induction s arbitrary: after)
  case Nil
  then show ?case by simp
next
  case (Cons d s)
  have sigma: "\<not> isAsciiUpper 0x3C2" "\<not> isAsciiUpper 0x3C3"
    by (simp_all add: isAsciiUpper_def)
  from Cons.prems Cons.IH sigma upper_shift[of d] show ?case
    by (auto split: if_splits)
qed

text \<open>
  A header of ASCII characters and Greek letters goes to a key with no ASCII capital
  letter.
\<close>

lemma transformHeader_no_upper:
  "list_all inFragment h \<Longrightarrow> c \<in> set (transformHeader U h) \<Longrightarrow> \<not> isAsciiUpper c"
  using lowerFrom_no_upper by (auto simp: transformHeader_def toLowerCase_def)

text \<open>
  The keys of a row are outputs of \<open>transformHeader\<close>. When the headers of the file are
  such strings, no key has a capital letter, so the properties that the coercion reads
  under a name with a capital letter are never among them: these fields are 0 in every
  item, and so is the margin of every item.
\<close>

lemma normalized_row_numeric_fields:
  assumes "\<forall>k \<in> dom row. \<exists>h. list_all inFragment h \<and> k = transformHeader U h"
  shows "minOrderQuantity (client_coerce row i) = Fin 0"
    and "minOrderQuantity (internal_coerce row i) = Fin 0"
    and "sampleCost (internal_coerce row i) = Fin 0"
    and "productionCost (internal_coerce row i) = Fin 0"
    and "factoryCost (internal_coerce row i) = Fin 0"
    and "calculateMargin (productionCost (internal_coerce row i)) (factoryCost (internal_coerce row i)) = Fin 0"
proof -
  have none: "row k = None" if "\<exists>c \<in> set k. isAsciiUpper c" for k
  proof (rule ccontr)
    assume "row k \<noteq> None"
    then have "k \<in> dom row" by auto
    then obtain h where "list_all inFragment h" "k = transformHeader U h"
      using assms by blast
    then show False
      using that transformHeader_no_upper by blast
  qed
  have "isAsciiUpper 0x4F" "isAsciiUpper 0x43" "isAsciiUpper 0x51"
    by (simp_all add: isAsciiUpper_def)
  then have k: "row (js ''minOrderQuantity'') = None" "row (js ''sampleCost'') = None"
    "row (js ''productionCost'') = None" "row (js ''factoryCost'') = None"
    by (auto intro!: none simp: js_def)
  show "minOrderQuantity (client_coerce row i) = Fin 0"
    and "minOrderQuantity (internal_coerce row i) = Fin 0"
    and "sampleCost (internal_coerce row i) = Fin 0"
    and "productionCost (internal_coerce row i) = Fin 0"
    and fc: "factoryCost (internal_coerce row i) = Fin 0"
    by (simp_all add: coerce_fields k parse_undefined num_or_zero_NaN)
  show "calculateMargin (productionCost (internal_coerce row i)) (factoryCost (internal_coerce row i)) = Fin 0"
    by (simp add: fc calculateMargin_def isZero_def)
qed

lemma transformHeader_variants:
  "transformHeader U (js ''Min Order Quantity'') = js ''minorderquantity''"
  "transformHeader U (js ''minOrderQuantity'') = js ''minorderquantity''"
  "transformHeader U (js ''MIN ORDER QUANTITY'') = js ''minorderquantity''"
  "transformHeader U (js ''Factory Cost'') = js ''factorycost''"
  "transformHeader U (js ''name'') = js ''name''"
  by (simp_all add: transformHeader_def isWhiteSpace_def lower_eval)

lemma key_mismatch:
  "js ''minOrderQuantity'' \<noteq> js ''minorderquantity''" "js ''minOrderQuantity'' \<noteq> js ''name''"
  "js ''factoryCost'' \<noteq> js ''factorycost''" "js ''factoryCost'' \<noteq> js ''name''"
  "js ''name'' \<noteq> js ''minorderquantity''" "js ''name'' \<noteq> js ''factorycost''"
  by (simp_all add: js_def)

subsection \<open>Margin\<close>

text \<open>
  Claim C8. The margin is 0 when the factory cost is zero (either zero), whatever the
  production cost, and for any other factory cost it is the value of the expression
  \<open>((productionCost - factoryCost) / factoryCost) * 100\<close> in the arithmetic of Numbers,
  each of the three operations rounded. When the three exact results are Numbers, that is
  the value of the expression over the reals. On an item that the ingestion builds from a
  row whose keys are normalized headers, the factory cost is 0 and so is the margin.
\<close>

theorem C8_margin:
  "calculateMargin pc fc =
     (if fc = Fin 0 \<or> fc = NegZero then Fin 0 else jmul (jdiv (jsub pc fc) fc) (Fin 100))
   \<and> (f \<noteq> 0 \<and> p \<noteq> f \<and> fl (p - f) = Fin (p - f) \<and> fl ((p - f) / f) = Fin ((p - f) / f)
        \<and> fl ((p - f) / f * 100) = Fin ((p - f) / f * 100) \<longrightarrow>
        calculateMargin (Fin p) (Fin f) = Fin ((p - f) / f * 100))
   \<and> ((\<forall>k \<in> dom row. \<exists>h. list_all inFragment h \<and> k = transformHeader U h) \<longrightarrow>
        calculateMargin (productionCost (internal_coerce row i))
          (factoryCost (internal_coerce row i)) = Fin 0)"
proof -
  have a: "calculateMargin pc fc =
     (if fc = Fin 0 \<or> fc = NegZero then Fin 0 else jmul (jdiv (jsub pc fc) fc) (Fin 100))"
    by (simp add: calculateMargin_def isZero_def)
  have c: "calculateMargin (Fin p) (Fin f) = Fin ((p - f) / f * 100)"
    if h: "f \<noteq> 0 \<and> p \<noteq> f \<and> fl (p - f) = Fin (p - f) \<and> fl ((p - f) / f) = Fin ((p - f) / f)
        \<and> fl ((p - f) / f * 100) = Fin ((p - f) / f * 100)"
  proof -
    have s: "jsub (Fin p) (Fin f) = Fin (p - f)"
      using h by (simp add: jsub_def isInf_def valueOf_def)
    have d: "jdiv (Fin (p - f)) (Fin f) = Fin ((p - f) / f)"
      using h by (simp add: jdiv_def isInf_def isZero_def valueOf_def)
    have m: "jmul (Fin ((p - f) / f)) (Fin 100) = Fin ((p - f) / f * 100)"
      using h by (simp add: jmul_def isInf_def isZero_def valueOf_def)
    show ?thesis
      using h by (simp add: calculateMargin_def isZero_def s d m)
  qed
  show ?thesis
    using a c normalized_row_numeric_fields(6)[of row U i] by blast
qed

text \<open>
  The margin of production cost 15 over factory cost 10 is 50. The margin of 0.3 over 0.1
  (the Numbers nearest to these) is 199.99999999999997, not 200, and the margin of
  \<open>1e308\<close> over \<open>-1e308\<close> is negative infinity, not \<open>-200\<close>. A zero of either sign as
  factory cost gives 0. The item of the file with the header line \<open>name,Factory Cost\<close>
  and the data line \<open>Shirt,12.5\<close> has the margin 0.
\<close>

theorem C8_margin_witness:
  "calculateMargin (Fin 15) (Fin 10) = Fin 50
   \<and> calculateMargin (Fin (5404319552844595 / 18014398509481984))
        (Fin (3602879701896397 / 36028797018963968))
       = Fin (7036874417766399 / 35184372088832)
   \<and> calculateMargin (Fin 100000000000000001097906362944045541740492309677311846336810682903157585404911491537163328978494688899061249669721172515611590283743140088328307009198146046031271664502933027185697489699588559043338384466165001178426897626212945177628091195786707458122783970171784415105291802893207873272974885715430223118336) (Fin (- 100000000000000001097906362944045541740492309677311846336810682903157585404911491537163328978494688899061249669721172515611590283743140088328307009198146046031271664502933027185697489699588559043338384466165001178426897626212945177628091195786707458122783970171784415105291802893207873272974885715430223118336)) = NegInfinity
   \<and> calculateMargin (Fin (- 5)) (Fin 0) = Fin 0
   \<and> calculateMargin PosInfinity NegZero = Fin 0
   \<and> calculateMargin
        (productionCost (internal_coerce
           (Map.empty(transformHeader (\<lambda>s. s) (js ''name'') \<mapsto> js ''Shirt'',
                      transformHeader (\<lambda>s. s) (js ''Factory Cost'') \<mapsto> js ''12.5'')) 0))
        (factoryCost (internal_coerce
           (Map.empty(transformHeader (\<lambda>s. s) (js ''name'') \<mapsto> js ''Shirt'',
                      transformHeader (\<lambda>s. s) (js ''Factory Cost'') \<mapsto> js ''12.5'')) 0))
       = Fin 0"
proof -
  let ?U = "\<lambda>s::jsstring. s"
  let ?row = "Map.empty(transformHeader ?U (js ''name'') \<mapsto> js ''Shirt'',
                        transformHeader ?U (js ''Factory Cost'') \<mapsto> js ''12.5'')"
  have e: "(10::real) \<noteq> 0 \<and> (15::real) \<noteq> 10 \<and> fl (15 - 10) = Fin (15 - 10)
      \<and> fl ((15 - 10) / 10) = Fin ((15 - 10) / 10)
      \<and> fl ((15 - 10) / 10 * 100) = Fin ((15 - 10) / 10 * 100)"
    by (simp add: num_eval)
  from C8_margin[of "Fin 15" "Fin 10" 10 15 ?row ?U 0] e
  have m1: "calculateMargin (Fin 15) (Fin 10) = Fin ((15 - 10) / 10 * 100)"
    by blast
  have s: "jsub (Fin (5404319552844595 / 18014398509481984)) (Fin (3602879701896397 / 36028797018963968))
             = Fin (7205759403792793 / 36028797018963968)"
    by (simp add: jsub_def num_eval)
  have d: "jdiv (Fin (7205759403792793 / 36028797018963968)) (Fin (3602879701896397 / 36028797018963968))
             = Fin (9007199254740991 / 4503599627370496)"
    by (simp add: jdiv_def num_eval)
  have m: "jmul (Fin (9007199254740991 / 4503599627370496)) (Fin 100)
             = Fin (7036874417766399 / 35184372088832)"
    by (simp add: jmul_def num_eval)
  from C8_margin[of "Fin (5404319552844595 / 18014398509481984)"
      "Fin (3602879701896397 / 36028797018963968)" 10 15 ?row ?U 0]
  have m2: "calculateMargin (Fin (5404319552844595 / 18014398509481984))
        (Fin (3602879701896397 / 36028797018963968))
       = Fin (7036874417766399 / 35184372088832)"
    by (simp add: s d m)
  have s': "jsub (Fin 100000000000000001097906362944045541740492309677311846336810682903157585404911491537163328978494688899061249669721172515611590283743140088328307009198146046031271664502933027185697489699588559043338384466165001178426897626212945177628091195786707458122783970171784415105291802893207873272974885715430223118336) (Fin (- 100000000000000001097906362944045541740492309677311846336810682903157585404911491537163328978494688899061249669721172515611590283743140088328307009198146046031271664502933027185697489699588559043338384466165001178426897626212945177628091195786707458122783970171784415105291802893207873272974885715430223118336)) = PosInfinity"
    using big_sum_overflows by (simp add: jsub_def isInf_def valueOf_def)
  from C8_margin[of "Fin 100000000000000001097906362944045541740492309677311846336810682903157585404911491537163328978494688899061249669721172515611590283743140088328307009198146046031271664502933027185697489699588559043338384466165001178426897626212945177628091195786707458122783970171784415105291802893207873272974885715430223118336" "Fin (- 100000000000000001097906362944045541740492309677311846336810682903157585404911491537163328978494688899061249669721172515611590283743140088328307009198146046031271664502933027185697489699588559043338384466165001178426897626212945177628091195786707458122783970171784415105291802893207873272974885715430223118336)" 10 15 ?row ?U 0]
  have m5: "calculateMargin (Fin 100000000000000001097906362944045541740492309677311846336810682903157585404911491537163328978494688899061249669721172515611590283743140088328307009198146046031271664502933027185697489699588559043338384466165001178426897626212945177628091195786707458122783970171784415105291802893207873272974885715430223118336) (Fin (- 100000000000000001097906362944045541740492309677311846336810682903157585404911491537163328978494688899061249669721172515611590283743140088328307009198146046031271664502933027185697489699588559043338384466165001178426897626212945177628091195786707458122783970171784415105291802893207873272974885715430223118336)) = NegInfinity"
    by (simp add: s' jdiv_def jmul_def isZero_def isInf_def isNeg_def inf_def)
  from C8_margin[of "Fin (- 5)" "Fin 0" 10 15 ?row ?U 0]
  have m3: "calculateMargin (Fin (- 5)) (Fin 0) = Fin 0" by simp
  from C8_margin[of PosInfinity NegZero 10 15 ?row ?U 0]
  have m4: "calculateMargin PosInfinity NegZero = Fin 0" by simp
  have frag: "list_all inFragment (js ''name'')" "list_all inFragment (js ''Factory Cost'')"
    by (simp_all add: js_def inFragment_def)
  have "\<forall>k \<in> dom ?row. \<exists>h. list_all inFragment h \<and> k = transformHeader ?U h"
    using frag by (auto split: if_splits)
  with C8_margin[of "Fin 15" "Fin 10" 10 15 ?row ?U 0]
  have m6: "calculateMargin (productionCost (internal_coerce ?row 0))
              (factoryCost (internal_coerce ?row 0)) = Fin 0"
    by blast
  show ?thesis
    using m1 m2 m3 m4 m5 m6 by simp
qed

subsection \<open>The defect of the keys\<close>

text \<open>
  Claim C1, on the input on which the code departs from it. The three variants of the
  header go to the one key \<open>minorderquantity\<close>, and the cell \<open>50\<close> parses to 50. A file
  with the header line \<open>name,Min Order Quantity\<close> and the data line \<open>Shirt,50\<close> is
  dropped: the item that the upload installs has the name \<open>Shirt\<close>, but its
  \<open>minOrderQuantity\<close> is 0, in both components, because the coercion reads the property
  \<open>minOrderQuantity\<close>, which is not the key.
\<close>

theorem C1_min_order_quantity_not_populated:
  "transformHeader U (js ''Min Order Quantity'') = js ''minorderquantity''
   \<and> transformHeader U (js ''minOrderQuantity'') = js ''minorderquantity''
   \<and> transformHeader U (js ''MIN ORDER QUANTITY'') = js ''minorderquantity''
   \<and> parseInt (Some (js ''50'')) = Fin 50
   \<and> map name (items (client_onDrop
        (\<lambda>f. \<lparr>data = [Map.empty(transformHeader U (js ''name'') \<mapsto> js ''Shirt'',
                                 transformHeader U (js ''Min Order Quantity'') \<mapsto> js ''50'')],
               errors = []\<rparr>)
        [''sheet.csv''] client_init)) = [js ''Shirt'']
   \<and> map minOrderQuantity (items (client_onDrop
        (\<lambda>f. \<lparr>data = [Map.empty(transformHeader U (js ''name'') \<mapsto> js ''Shirt'',
                                 transformHeader U (js ''Min Order Quantity'') \<mapsto> js ''50'')],
               errors = []\<rparr>)
        [''sheet.csv''] client_init)) = [Fin 0]
   \<and> map minOrderQuantity (items (internal_onDrop
        (\<lambda>f. \<lparr>data = [Map.empty(transformHeader U (js ''name'') \<mapsto> js ''Shirt'',
                                 transformHeader U (js ''Min Order Quantity'') \<mapsto> js ''50'')],
               errors = []\<rparr>)
        [''sheet.csv''] internal_init)) = [Fin 0]"
proof -
  have p: "parseInt (Some (js ''50'')) = Fin 50"
    by (simp add: parse_eval; simp add: num_eval)
  have ne: "js ''Shirt'' \<noteq> []" by (simp add: js_def)
  have c: "items (client_onDrop
        (\<lambda>f. \<lparr>data = [Map.empty(transformHeader U (js ''name'') \<mapsto> js ''Shirt'',
                                 transformHeader U (js ''Min Order Quantity'') \<mapsto> js ''50'')],
               errors = []\<rparr>)
        [''sheet.csv''] client_init)
      = [client_coerce (Map.empty(js ''name'' \<mapsto> js ''Shirt'', js ''minorderquantity'' \<mapsto> js ''50'')) 0]"
    by (simp add: client_onDrop_def client_complete_def enumerate_eq_zip transformHeader_variants)
  have i: "items (internal_onDrop
        (\<lambda>f. \<lparr>data = [Map.empty(transformHeader U (js ''name'') \<mapsto> js ''Shirt'',
                                 transformHeader U (js ''Min Order Quantity'') \<mapsto> js ''50'')],
               errors = []\<rparr>)
        [''sheet.csv''] internal_init)
      = [internal_coerce (Map.empty(js ''name'' \<mapsto> js ''Shirt'', js ''minorderquantity'' \<mapsto> js ''50'')) 0]"
    by (simp add: internal_onDrop_def internal_complete_def enumerate_eq_zip transformHeader_variants)
  show ?thesis
    unfolding c i
    using p ne
    by (simp add: transformHeader_variants coerce_fields key_mismatch parse_undefined
          num_or_zero_NaN str_or_empty_def)
qed

text \<open>
  Claim C7, on the input on which the code departs from it. The cell \<open>12.75\<close> parses as an
  integer to 12 and the cell \<open>-3.5\<close> parses to \<open>-3.5\<close>. A file with the header line
  \<open>name,Min Order Quantity\<close> and the data line \<open>Shirt,12.75\<close> is dropped on the client
  component, and a file with the header line \<open>name,Factory Cost\<close> and the data line
  \<open>Shirt,-3.5\<close> on the internal component. The installed items have the name \<open>Shirt\<close>,
  but \<open>minOrderQuantity\<close> is 0, not 12, and \<open>factoryCost\<close> is 0, not \<open>-3.5\<close>: the coercion
  reads the properties \<open>minOrderQuantity\<close> and \<open>factoryCost\<close>, and the keys of the rows are
  \<open>minorderquantity\<close> and \<open>factorycost\<close>.
\<close>

theorem C7_fraction_and_negative_lost:
  "parseInt (Some (js ''12.75'')) = Fin 12
   \<and> parseFloat (Some (js ''-3.5'')) = Fin (- 7 / 2)
   \<and> map name (items (client_onDrop
        (\<lambda>f. \<lparr>data = [Map.empty(transformHeader U (js ''name'') \<mapsto> js ''Shirt'',
                                 transformHeader U (js ''Min Order Quantity'') \<mapsto> js ''12.75'')],
               errors = []\<rparr>)
        [''client.csv''] client_init)) = [js ''Shirt'']
   \<and> map minOrderQuantity (items (client_onDrop
        (\<lambda>f. \<lparr>data = [Map.empty(transformHeader U (js ''name'') \<mapsto> js ''Shirt'',
                                 transformHeader U (js ''Min Order Quantity'') \<mapsto> js ''12.75'')],
               errors = []\<rparr>)
        [''client.csv''] client_init)) = [Fin 0]
   \<and> map name (items (internal_onDrop
        (\<lambda>f. \<lparr>data = [Map.empty(transformHeader U (js ''name'') \<mapsto> js ''Shirt'',
                                 transformHeader U (js ''Factory Cost'') \<mapsto> js ''-3.5'')],
               errors = []\<rparr>)
        [''internal.csv''] internal_init)) = [js ''Shirt'']
   \<and> map factoryCost (items (internal_onDrop
        (\<lambda>f. \<lparr>data = [Map.empty(transformHeader U (js ''name'') \<mapsto> js ''Shirt'',
                                 transformHeader U (js ''Factory Cost'') \<mapsto> js ''-3.5'')],
               errors = []\<rparr>)
        [''internal.csv''] internal_init)) = [Fin 0]"
proof -
  have p: "parseInt (Some (js ''12.75'')) = Fin 12"
    by (simp add: parse_eval; simp add: num_eval)
  have q: "parseFloat (Some (js ''-3.5'')) = Fin (- 7 / 2)"
    by (simp add: parse_eval; simp add: num_eval)
  have ne: "js ''Shirt'' \<noteq> []" by (simp add: js_def)
  have c: "items (client_onDrop
        (\<lambda>f. \<lparr>data = [Map.empty(transformHeader U (js ''name'') \<mapsto> js ''Shirt'',
                                 transformHeader U (js ''Min Order Quantity'') \<mapsto> js ''12.75'')],
               errors = []\<rparr>)
        [''client.csv''] client_init)
      = [client_coerce (Map.empty(js ''name'' \<mapsto> js ''Shirt'', js ''minorderquantity'' \<mapsto> js ''12.75'')) 0]"
    by (simp add: client_onDrop_def client_complete_def enumerate_eq_zip transformHeader_variants)
  have i: "items (internal_onDrop
        (\<lambda>f. \<lparr>data = [Map.empty(transformHeader U (js ''name'') \<mapsto> js ''Shirt'',
                                 transformHeader U (js ''Factory Cost'') \<mapsto> js ''-3.5'')],
               errors = []\<rparr>)
        [''internal.csv''] internal_init)
      = [internal_coerce (Map.empty(js ''name'' \<mapsto> js ''Shirt'', js ''factorycost'' \<mapsto> js ''-3.5'')) 0]"
    by (simp add: internal_onDrop_def internal_complete_def enumerate_eq_zip transformHeader_variants)
  show ?thesis
    unfolding c i
    using p q ne
    by (simp add: coerce_fields key_mismatch parse_undefined num_or_zero_NaN str_or_empty_def)
qed

end
